theory Spec2Isabelle
  imports Main
begin

section \<open>Route normalisation\<close>

text \<open>
  A character of the model is a UTF-16 code unit below 256, which is what a HOL character
  holds; a HOL string is a JavaScript string of such code units. On these the model is
  exact. The regular-expression class \<^verbatim>\<open>\s\<close> matches, below 256, the tab, line feed,
  vertical tab, form feed, carriage return, space and no-break space (U+00A0), and
  \<^verbatim>\<open>toLowerCase\<close> maps A to Z and the letters U+00C0 to U+00DE other than the
  multiplication sign U+00D7 to the character 32 places further on, and leaves every other
  character below 256 as it is. Strings with code units from 256 on are not in the model.
\<close>

definition is_whitespace :: "char \<Rightarrow> bool" where
  "is_whitespace c =
     (c = CHR 0x09 \<or> c = CHR 0x0A \<or> c = CHR 0x0B \<or> c = CHR 0x0C \<or> c = CHR 0x0D
      \<or> c = CHR 0x20 \<or> c = CHR 0xA0)"

definition toLowerCase_char :: "char \<Rightarrow> char" where
  "toLowerCase_char c =
     (let n = (of_char c :: nat) in
      if (65 \<le> n \<and> n \<le> 90) \<or> (192 \<le> n \<and> n \<le> 222 \<and> n \<noteq> 215) then char_of (n + 32)
      else c)"

definition toLowerCase :: "string \<Rightarrow> string" where
  "toLowerCase s = map toLowerCase_char s"

text \<open>
  \<^verbatim>\<open>someRoute.replace(/\s+/g, '-')\<close>: scanning from the left, every match of
  \<^verbatim>\<open>\s+\<close> (greedy, so a whole run of white space) becomes one hyphen.
\<close>

function replace_whitespace :: "string \<Rightarrow> string" where
  "replace_whitespace [] = []"
| "replace_whitespace (c # cs) =
     (if is_whitespace c then CHR ''-'' # replace_whitespace (dropWhile is_whitespace cs)
      else c # replace_whitespace cs)"
  by pat_completeness auto
termination
  by (relation "measure length") (auto simp: less_Suc_eq_le length_dropWhile_le)

definition cleanRoute :: "string \<Rightarrow> string" where
  "cleanRoute someRoute = toLowerCase (replace_whitespace someRoute)"






fun runs :: "('a \<Rightarrow> bool) \<Rightarrow> 'a list \<Rightarrow> 'a list list" where
  "runs P [] = []"
| "runs P (x # xs) =
     (case runs P xs of
        [] \<Rightarrow> [[x]]
      | r # rs \<Rightarrow> (if P (hd r) = P x then (x # r) # rs else [x] # r # rs))"




section \<open>Values, exceptions and results\<close>

text \<open>
  The value of a frontmatter key is whatever the YAML parser makes of it: a string, or a
  value of another kind, on which \<^verbatim>\<open>someRoute.replace\<close> is not callable.
\<close>

datatype yaml_value =
    YStr string
  | YNum int
  | YBool bool
  | YNull
  | YSeq "yaml_value list"
  | YMap "(string \<times> yaml_value) list"

text \<open>A thrown value: a plain \<^verbatim>\<open>Error\<close> or the engine's \<^verbatim>\<open>TypeError\<close>, with its message.\<close>

datatype exn = Error string | TypeError string

fun message_of :: "exn \<Rightarrow> string" where
  "message_of (Error m) = m"
| "message_of (TypeError m) = m"

text \<open>
  What the engine refuses with a \<^verbatim>\<open>TypeError\<close>: reading property \<open>p\<close> of the value
  \<open>v\<close> (\<^verbatim>\<open>undefined\<close> or \<^verbatim>\<open>null\<close>), and calling \<open>f\<close>, which is not a function. The
  text of the message is the engine's own and differs between engines and versions: it is
  a parameter (\<open>type_error_message\<close> below).
\<close>

datatype type_error = Read_of string string | Not_a_function string

text \<open>An async function either resolves with a value or rejects with a thrown value.\<close>

datatype 'a outcome = Returned 'a | Thrown exn

record error_obj =
  type :: string
  code :: string
  message :: string

definition dquote :: "string \<Rightarrow> string" where
  "dquote s = CHR 0x22 # s @ [CHR 0x22]"

section \<open>Content records and the backing store\<close>

text \<open>
  The result of the front-matter library has the properties \<^verbatim>\<open>attributes\<close> and
  \<^verbatim>\<open>body\<close>; whatever else the library puts on it is carried along in \<open>other\<close>.
  \<^verbatim>\<open>parseMDLocal\<close> spreads it into a record with \<^verbatim>\<open>parsed\<close> and \<^verbatim>\<open>raw\<close> added.
\<close>

record 'x fm_content =
  attributes :: "string \<rightharpoonup> yaml_value"
  body :: string
  other :: 'x

record 'x content_record = "'x fm_content" +
  parsed :: string
  raw :: string

text \<open>
  The stored collection is an object used as a dictionary from keys to records: the map
  holds its own properties, and the order in which the engine enumerates them is a
  parameter (\<open>object_keys\<close> below). The object is a plain one, so it also inherits the
  properties of \<^verbatim>\<open>Object.prototype\<close>, which matter where the source reads and writes
  \<^verbatim>\<open>copied[clean]\<close>:
  \<^item> reading a key that is no own property gives the inherited value when the key is one
    of the names below (a function, or the prototype itself for \<^verbatim>\<open>__proto__\<close>; none of
    them has a property \<^verbatim>\<open>raw\<close>), and \<^verbatim>\<open>undefined\<close> otherwise;
  \<^item> assigning to the key \<^verbatim>\<open>__proto__\<close> when it is no own property runs the inherited
    setter: the prototype of the object is replaced and no own property is created, so
    the collection that is committed has the same properties as before. Every other
    assignment creates or replaces the own property.
\<close>

type_synonym 'x collection = "string \<rightharpoonup> 'x content_record"

definition object_prototype_names :: "string list" where
  "object_prototype_names =
     [''constructor'', ''__defineGetter__'', ''__defineSetter__'', ''hasOwnProperty'',
      ''__lookupGetter__'', ''__lookupSetter__'', ''isPrototypeOf'', ''propertyIsEnumerable'',
      ''toString'', ''valueOf'', ''__proto__'', ''toLocaleString'']"

datatype 'a property = Own 'a | Inherited | Undefined

definition get_property :: "(string \<rightharpoonup> 'a) \<Rightarrow> string \<Rightarrow> 'a property" where
  "get_property obj key =
     (case obj key of
        Some v \<Rightarrow> Own v
      | None \<Rightarrow> if key \<in> set object_prototype_names then Inherited else Undefined)"

definition set_property :: "(string \<rightharpoonup> 'a) \<Rightarrow> string \<Rightarrow> 'a \<Rightarrow> (string \<rightharpoonup> 'a)" where
  "set_property obj key v =
     (if key = ''__proto__'' \<and> obj key = None then obj else obj(key \<mapsto> v))"

text \<open>
  Modelled from the spec: the backing key-value store (the package
  \<^verbatim>\<open>@binaris/shift-db\<close>, imported by the source and not part of it), with the four
  primitives \<^verbatim>\<open>get\<close>, \<^verbatim>\<open>create\<close>, \<^verbatim>\<open>remove\<close> and \<^verbatim>\<open>update\<close> of the
  specification's section on external interfaces. The state records, besides the stored
  entries, the calls made on the store, in order. \<^verbatim>\<open>update\<close> hands the current value
  (or \<^verbatim>\<open>undefined\<close>) to the mutator and commits what it returns; when the mutator
  throws, nothing is committed and the call rejects with the thrown value. A value is
  read back as it was stored.
\<close>

datatype db_call = Get string | Remove string | Create string | Update string

record 'x db =
  entries :: "string \<rightharpoonup> 'x collection"
  journal :: "db_call list"

definition get :: "string \<Rightarrow> 'x db \<Rightarrow> 'x collection option \<times> 'x db" where
  "get key db = (entries db key, db\<lparr>journal := journal db @ [Get key]\<rparr>)"

definition remove :: "string \<Rightarrow> 'x db \<Rightarrow> 'x db" where
  "remove key db = db\<lparr>entries := (entries db)(key := None), journal := journal db @ [Remove key]\<rparr>"

definition create :: "string \<Rightarrow> 'x collection \<Rightarrow> 'x db \<Rightarrow> 'x db" where
  "create key initial db =
     db\<lparr>entries := (if entries db key = None then (entries db)(key \<mapsto> initial) else entries db),
        journal := journal db @ [Create key]\<rparr>"

definition update ::
  "string \<Rightarrow> ('x collection option \<Rightarrow> 's \<times> (exn + 'x collection)) \<Rightarrow> 'x db
     \<Rightarrow> ('s \<times> (exn + unit)) \<times> 'x db" where
  "update key mutator db =
     (case mutator (entries db key) of
        (s, Inl err) \<Rightarrow> ((s, Inl err), db\<lparr>journal := journal db @ [Update key]\<rparr>)
      | (s, Inr next) \<Rightarrow>
          ((s, Inr ()),
           db\<lparr>entries := (entries db)(key \<mapsto> next), journal := journal db @ [Update key]\<rparr>))"

text \<open>
  The collaborators the source imports or runs on: the token validator (\<open>None\<close> when it
  accepts, the thrown value when it rejects), the front-matter parser, the rendering
  pipeline, the engine's \<^verbatim>\<open>Object.keys\<close> on a collection, and the engine's wording of
  its \<^verbatim>\<open>TypeError\<close> messages.
\<close>

record ('j, 'x) deps =
  validateJWT :: "'j \<Rightarrow> exn option"
  fm :: "string \<Rightarrow> exn + 'x fm_content"
  process :: "string \<Rightarrow> exn + string"
  object_keys :: "'x collection \<Rightarrow> string list"
  type_error_message :: "type_error \<Rightarrow> string"

definition enumerates :: "string list \<Rightarrow> 'x collection \<Rightarrow> bool" where
  "enumerates ks c = (distinct ks \<and> set ks = dom c)"

section \<open>The content operations\<close>

definition contentKey :: string where
  "contentKey = ''content''"

definition getContent :: "'x db \<Rightarrow> 'x collection \<times> 'x db" where
  "getContent db =
     (case get contentKey db of
        (None, db1) \<Rightarrow>
          (let db2 = remove contentKey db1;
               db3 = create contentKey Map.empty db2
           in (Map.empty, db3))
      | (Some storedContent, db1) \<Rightarrow> (storedContent, db1))"

definition parseMDLocal ::
  "(string \<Rightarrow> exn + 'x fm_content) \<Rightarrow> (string \<Rightarrow> exn + string) \<Rightarrow> string
     \<Rightarrow> exn + 'x content_record" where
  "parseMDLocal fm_lib process_lib markdownContent =
     (case fm_lib markdownContent of
        Inl e \<Rightarrow> Inl e
      | Inr fmContent \<Rightarrow>
          (case process_lib (body fmContent) of
             Inl e \<Rightarrow> Inl e
           | Inr contents \<Rightarrow>
               Inr \<lparr>attributes = attributes fmContent, body = body fmContent,
                    other = other fmContent, parsed = contents, raw = markdownContent\<rparr>))"

definition parseMD ::
  "('j, 'x) deps \<Rightarrow> 'j \<Rightarrow> string \<Rightarrow> 'x content_record outcome" where
  "parseMD E jwt markdownContent =
     (case validateJWT E jwt of
        Some e \<Rightarrow> Thrown e
      | None \<Rightarrow>
          (case parseMDLocal (fm E) (process E) markdownContent of
             Inl e \<Rightarrow> Thrown e
           | Inr parsedMD \<Rightarrow> Returned parsedMD))"

text \<open>
  \<^verbatim>\<open>cleanRoute\<close> called on a frontmatter value that need not be a string: only a string
  has a \<^verbatim>\<open>replace\<close> method. The first argument is the engine's wording of the message.
\<close>

fun cleanRoute_value :: "(type_error \<Rightarrow> string) \<Rightarrow> yaml_value option \<Rightarrow> exn + string" where
  "cleanRoute_value wording (Some (YStr s)) = Inr (cleanRoute s)"
| "cleanRoute_value wording None = Inl (TypeError (wording (Read_of ''replace'' ''undefined'')))"
| "cleanRoute_value wording (Some YNull) = Inl (TypeError (wording (Read_of ''replace'' ''null'')))"
| "cleanRoute_value wording (Some v) = Inl (TypeError (wording (Not_a_function ''someRoute.replace'')))"

text \<open>
  The mutator passed to \<^verbatim>\<open>update\<close>. It assigns the captured variable
  \<^verbatim>\<open>potentialError\<close> before it throws; the model returns that variable's value next to
  the mutator's own result (\<open>Inl\<close> what it throws, \<open>Inr\<close> the next collection). In the
  comparison \<^verbatim>\<open>clientPrevContent !== copied[clean].raw\<close> an inherited value has no
  \<^verbatim>\<open>raw\<close>, and a string differs from \<^verbatim>\<open>undefined\<close>.
\<close>

definition updater ::
  "(type_error \<Rightarrow> string) \<Rightarrow> 'x content_record \<Rightarrow> yaml_value option \<Rightarrow> string option
     \<Rightarrow> 'x collection option \<Rightarrow> error_obj option \<times> (exn + 'x collection)" where
  "updater wording parsedMD route clientPrevContent prevContent =
     (let copied = (case prevContent of None \<Rightarrow> Map.empty | Some c \<Rightarrow> c) in
      if route = None then
        (let potentialError =
               \<lparr>type = ''error'', code = ''CONTENT_MISSING_FIELD'',
                message = ''Content: must contain '' @ dquote ''route'' @ '' field in frontmatter''\<rparr>
         in (Some potentialError, Inl (Error (message potentialError))))
      else
        (case cleanRoute_value wording route of
           Inl e \<Rightarrow> (None, Inl e)
         | Inr clean \<Rightarrow>
             (let changed =
                    (let potentialError =
                           \<lparr>type = ''error'', code = ''CONTENT_HAS_CHANGED'',
                            message = ''Content at route: '' @ dquote clean
                              @ '' has been modified since reading''\<rparr>
                     in (Some potentialError, Inl (Error (message potentialError))));
                  committed = (None, Inr (set_property copied clean parsedMD))
              in case clientPrevContent of
                   None \<Rightarrow> committed
                 | Some prev \<Rightarrow>
                     (case get_property copied clean of
                        Undefined \<Rightarrow> (None, Inl (TypeError (wording (Read_of ''raw'' ''undefined''))))
                      | Inherited \<Rightarrow> changed
                      | Own existing \<Rightarrow> if prev \<noteq> raw existing then changed else committed))))"

definition updateContent ::
  "('j, 'x) deps \<Rightarrow> 'j \<Rightarrow> string \<Rightarrow> string option \<Rightarrow> 'x db
     \<Rightarrow> error_obj option outcome \<times> 'x db" where
  "updateContent E jwt content clientPrevContent db =
     (case validateJWT E jwt of
        Some e \<Rightarrow> (Thrown e, db)
      | None \<Rightarrow>
          (case parseMDLocal (fm E) (process E) content of
             Inl e \<Rightarrow> (Thrown e, db)
           | Inr parsedMD \<Rightarrow>
               (let route = attributes parsedMD ''route'' in
                case update contentKey
                       (updater (type_error_message E) parsedMD route clientPrevContent) db of
                  ((potentialError, Inl err), db') \<Rightarrow>
                    (Returned (Some (case potentialError of
                                       Some e \<Rightarrow> e
                                     | None \<Rightarrow>
                                         \<lparr>type = ''error'', code = ''UNKNOWN_ERROR'',
                                          message = message_of err\<rparr>)),
                     db')
                | ((potentialError, Inr u), db') \<Rightarrow> (Returned None, db'))))"

text \<open>
  The \<^verbatim>\<open>for\<close> loop of \<^verbatim>\<open>getContentByRoute\<close> and of \<^verbatim>\<open>loadContentByRoute\<close> over
  the keys of the loaded collection: \<open>Some (Inr r)\<close> when it returns from inside the loop
  at record \<open>r\<close>, \<open>Some (Inl e)\<close> when an iteration throws, \<open>None\<close> when it runs to its
  end.
\<close>

fun scan_keys ::
  "(type_error \<Rightarrow> string) \<Rightarrow> 'x collection \<Rightarrow> string \<Rightarrow> string list
     \<Rightarrow> (exn + 'x content_record) option" where
  "scan_keys wording loadedContent route [] = None"
| "scan_keys wording loadedContent route (k # ks) =
     (case get_property loadedContent k of
        Undefined \<Rightarrow> Some (Inl (TypeError (wording (Read_of ''attributes'' ''undefined''))))
      | Inherited \<Rightarrow> Some (Inl (TypeError (wording (Read_of ''route'' ''undefined''))))
      | Own r \<Rightarrow>
          (case cleanRoute_value wording (attributes r ''route'') of
             Inl e \<Rightarrow> Some (Inl e)
           | Inr clean \<Rightarrow>
               if clean = cleanRoute route then Some (Inr r)
               else scan_keys wording loadedContent route ks))"

definition getContentByRoute ::
  "('j, 'x) deps \<Rightarrow> 'j \<Rightarrow> string \<Rightarrow> 'x db \<Rightarrow> 'x content_record outcome \<times> 'x db" where
  "getContentByRoute E jwt route db =
     (case validateJWT E jwt of
        Some e \<Rightarrow> (Thrown e, db)
      | None \<Rightarrow>
          (case getContent db of
             (loadedContent, db') \<Rightarrow>
               (case scan_keys (type_error_message E) loadedContent route
                       (object_keys E loadedContent) of
                  Some (Inr r) \<Rightarrow> (Returned r, db')
                | Some (Inl e) \<Rightarrow> (Thrown e, db')
                | None \<Rightarrow>
                    (Thrown (Error (''No content found for route: '' @ dquote route)), db'))))"

definition loadContentByRoute ::
  "('j, 'x) deps \<Rightarrow> string \<Rightarrow> 'x db \<Rightarrow> string outcome \<times> 'x db" where
  "loadContentByRoute E route db =
     (case getContent db of
        (loadedContent, db') \<Rightarrow>
          (case scan_keys (type_error_message E) loadedContent route
                  (object_keys E loadedContent) of
             Some (Inr r) \<Rightarrow> (Returned (parsed r), db')
           | Some (Inl e) \<Rightarrow> (Thrown e, db')
           | None \<Rightarrow> (Thrown (Error (''No content found for route: '' @ route)), db')))"

text \<open>
  \<^verbatim>\<open>Object.keys(loaded).map((key) => loaded[key].attributes)\<close>; an element is \<open>None\<close>
  where the property read gives \<^verbatim>\<open>undefined\<close>.
\<close>

fun map_attributes ::
  "(type_error \<Rightarrow> string) \<Rightarrow> 'x collection \<Rightarrow> string list
     \<Rightarrow> exn + (string \<rightharpoonup> yaml_value) option list" where
  "map_attributes wording loaded [] = Inr []"
| "map_attributes wording loaded (key # keys) =
     (case get_property loaded key of
        Undefined \<Rightarrow> Inl (TypeError (wording (Read_of ''attributes'' ''undefined'')))
      | Inherited \<Rightarrow>
          (case map_attributes wording loaded keys of
             Inl e \<Rightarrow> Inl e
           | Inr rest \<Rightarrow> Inr (None # rest))
      | Own r \<Rightarrow>
          (case map_attributes wording loaded keys of
             Inl e \<Rightarrow> Inl e
           | Inr rest \<Rightarrow> Inr (Some (attributes r) # rest)))"

definition getContentMeta ::
  "('j, 'x) deps \<Rightarrow> 'x db \<Rightarrow> (string \<rightharpoonup> yaml_value) option list outcome \<times> 'x db" where
  "getContentMeta E db =
     (case getContent db of
        (loaded, db') \<Rightarrow>
          (case map_attributes (type_error_message E) loaded (object_keys E loaded) of
             Inl e \<Rightarrow> (Thrown e, db')
           | Inr metas \<Rightarrow> (Returned metas, db')))"

section \<open>The stored collection and its invariant\<close>

text \<open>
  The collection the mutator starts from (\<^verbatim>\<open>{ ...prevContent }\<close>): the entry at the
  content key, or the empty object when the store has none.
\<close>

definition stored :: "'x db \<Rightarrow> 'x collection" where
  "stored db = (case entries db contentKey of None \<Rightarrow> Map.empty | Some c \<Rightarrow> c)"

text \<open>
  The invariant of the data model: every key of the collection is the normalised route
  that its record declares.
\<close>

definition route_keyed :: "'x collection \<Rightarrow> bool" where
  "route_keyed c =
     (\<forall>k r. c k = Some r \<longrightarrow> (\<exists>s. attributes r ''route'' = Some (YStr s) \<and> cleanRoute s = k))"

section \<open>Sample documents and collaborators\<close>

text \<open>
  Concrete inputs on which the theorems below are instantiated. \<open>sample_fm\<close> gives the
  frontmatter of six documents as the YAML parser reads it; \<open>sample_process\<close> stands in
  for the rendering pipeline, whose output no property below depends on;
  \<open>sample_keys\<close> enumerates the keys of a collection among the three keys used here;
  \<open>sample_wording\<close> is one engine's wording of the \<^verbatim>\<open>TypeError\<close> messages.
\<close>

definition line_feed :: string where
  "line_feed = [CHR 0x0A]"

definition front :: "string \<Rightarrow> string \<Rightarrow> string" where
  "front yaml_line md_body = ''---'' @ line_feed @ yaml_line @ line_feed @ ''---'' @ line_feed @ md_body"

definition doc_hello :: string where
  "doc_hello = front ''route: Hello World'' ''# Hi''"

definition doc_hello_edit :: string where
  "doc_hello_edit = front ''route: hello world'' ''# Hi again''"

definition doc_about :: string where
  "doc_about = front ''route: about'' ''# About''"

definition doc_no_route :: string where
  "doc_no_route = front ''title: About'' ''# About''"

definition doc_numeric :: string where
  "doc_numeric = front ''route: 42'' ''# Hi''"

definition doc_proto :: string where
  "doc_proto = front ''route: __proto__'' ''# Hi''"

definition sample_fm :: "string \<Rightarrow> exn + unit fm_content" where
  "sample_fm md =
     (if md = doc_hello then
        Inr \<lparr>attributes = [''route'' \<mapsto> YStr ''Hello World''], body = ''# Hi'', other = ()\<rparr>
      else if md = doc_hello_edit then
        Inr \<lparr>attributes = [''route'' \<mapsto> YStr ''hello world''], body = ''# Hi again'', other = ()\<rparr>
      else if md = doc_about then
        Inr \<lparr>attributes = [''route'' \<mapsto> YStr ''about''], body = ''# About'', other = ()\<rparr>
      else if md = doc_no_route then
        Inr \<lparr>attributes = [''title'' \<mapsto> YStr ''About''], body = ''# About'', other = ()\<rparr>
      else if md = doc_numeric then
        Inr \<lparr>attributes = [''route'' \<mapsto> YNum 42], body = ''# Hi'', other = ()\<rparr>
      else if md = doc_proto then
        Inr \<lparr>attributes = [''route'' \<mapsto> YStr ''__proto__''], body = ''# Hi'', other = ()\<rparr>
      else Inl (Error ''unexpected document''))"

definition sample_process :: "string \<Rightarrow> exn + string" where
  "sample_process md_body = Inr (''<article>'' @ md_body @ ''</article>'')"

definition sample_validate :: "string \<Rightarrow> exn option" where
  "sample_validate jwt = (if jwt = ''good'' then None else Some (Error ''invalid token''))"

definition sample_keys :: "unit collection \<Rightarrow> string list" where
  "sample_keys c = filter (\<lambda>k. c k \<noteq> None) [''hello-world'', ''about'', ''__proto__'']"

fun sample_wording :: "type_error \<Rightarrow> string" where
  "sample_wording (Read_of p v) = ''Cannot read properties of '' @ v @ '' (reading '' @ p @ '')''"
| "sample_wording (Not_a_function f) = f @ '' is not a function''"

definition sample_deps :: "(string, unit) deps" where
  "sample_deps =
     \<lparr>validateJWT = sample_validate, fm = sample_fm, process = sample_process,
      object_keys = sample_keys, type_error_message = sample_wording\<rparr>"

definition rec_hello :: "unit content_record" where
  "rec_hello =
     \<lparr>attributes = [''route'' \<mapsto> YStr ''Hello World''], body = ''# Hi'', other = (),
      parsed = ''<article># Hi</article>'', raw = doc_hello\<rparr>"

definition rec_hello_edit :: "unit content_record" where
  "rec_hello_edit =
     \<lparr>attributes = [''route'' \<mapsto> YStr ''hello world''], body = ''# Hi again'', other = (),
      parsed = ''<article># Hi again</article>'', raw = doc_hello_edit\<rparr>"

definition rec_about :: "unit content_record" where
  "rec_about =
     \<lparr>attributes = [''route'' \<mapsto> YStr ''about''], body = ''# About'', other = (),
      parsed = ''<article># About</article>'', raw = doc_about\<rparr>"

definition rec_proto :: "unit content_record" where
  "rec_proto =
     \<lparr>attributes = [''route'' \<mapsto> YStr ''__proto__''], body = ''# Hi'', other = (),
      parsed = ''<article># Hi</article>'', raw = doc_proto\<rparr>"

definition db_fresh :: "unit db" where
  "db_fresh = \<lparr>entries = Map.empty, journal = []\<rparr>"

definition db_empty :: "unit db" where
  "db_empty = \<lparr>entries = [contentKey \<mapsto> Map.empty], journal = []\<rparr>"

definition db_hello :: "unit db" where
  "db_hello = \<lparr>entries = [contentKey \<mapsto> [''hello-world'' \<mapsto> rec_hello]], journal = []\<rparr>"

definition db_two :: "unit db" where
  "db_two =
     \<lparr>entries = [contentKey \<mapsto> [''hello-world'' \<mapsto> rec_hello, ''about'' \<mapsto> rec_about]],
      journal = []\<rparr>"

section \<open>Properties of the route normaliser\<close>

lemma char_eq_code: "(c = d) = ((of_char c :: nat) = of_char d)"
  by simp

lemma is_whitespace_of_char:
  "is_whitespace c = ((of_char c :: nat) \<in> {9, 10, 11, 12, 13, 32, 160})"
  unfolding is_whitespace_def char_eq_code [of c] by auto


lemma is_whitespace_toLowerCase_char [simp]:
  "is_whitespace (toLowerCase_char c) = is_whitespace c"
  by (auto simp: is_whitespace_of_char toLowerCase_char_def Let_def)

lemma toLowerCase_char_idem [simp]:
  "toLowerCase_char (toLowerCase_char c) = toLowerCase_char c"
  by (auto simp: toLowerCase_char_def Let_def)









lemma hyphen_not_whitespace [simp]: "\<not> is_whitespace CHR ''-''"
  by (simp add: is_whitespace_def)





text \<open>The runs are a decomposition of the string into maximal uniform pieces.\<close>

lemma concat_runs: "concat (runs P xs) = xs"
  by (induction xs) (auto split: list.splits)

lemma runs_nonempty: "r \<in> set (runs P xs) \<Longrightarrow> r \<noteq> []"
  by (induction xs arbitrary: r) (auto split: list.splits if_splits)

lemma runs_uniform: "\<forall>r\<in>set (runs P xs). \<forall>y\<in>set r. P y = P (hd r)"
  by (induction xs) (auto split: list.splits)

lemma runs_alternate:
  "successively (\<lambda>r r'. P (hd r) \<noteq> P (hd r')) (runs P xs)"
  by (induction xs) (auto split: list.splits simp: successively_Cons)







section \<open>Facts about the sample inputs\<close>

lemmas doc_defs =
  doc_hello_def doc_hello_edit_def doc_about_def doc_no_route_def doc_numeric_def
  doc_proto_def front_def line_feed_def

lemma sample_valid: "validateJWT sample_deps ''good'' = None"
  by (simp add: sample_deps_def sample_validate_def)

lemma sample_deps_sel:
  "fm sample_deps = sample_fm" "process sample_deps = sample_process"
  "object_keys sample_deps = sample_keys" "type_error_message sample_deps = sample_wording"
  by (simp_all add: sample_deps_def)

lemma sample_fm_hello:
  "sample_fm doc_hello =
     Inr \<lparr>attributes = [''route'' \<mapsto> YStr ''Hello World''], body = ''# Hi'', other = ()\<rparr>"
  by (simp add: sample_fm_def)

lemma sample_fm_edit:
  "sample_fm doc_hello_edit =
     Inr \<lparr>attributes = [''route'' \<mapsto> YStr ''hello world''], body = ''# Hi again'', other = ()\<rparr>"
  by (simp add: sample_fm_def) (simp add: doc_defs)

lemma sample_fm_no_route:
  "sample_fm doc_no_route =
     Inr \<lparr>attributes = [''title'' \<mapsto> YStr ''About''], body = ''# About'', other = ()\<rparr>"
  by (simp add: sample_fm_def) (simp add: doc_defs)

lemma sample_fm_numeric:
  "sample_fm doc_numeric =
     Inr \<lparr>attributes = [''route'' \<mapsto> YNum 42], body = ''# Hi'', other = ()\<rparr>"
  by (simp add: sample_fm_def) (simp add: doc_defs)

lemma sample_fm_proto:
  "sample_fm doc_proto =
     Inr \<lparr>attributes = [''route'' \<mapsto> YStr ''__proto__''], body = ''# Hi'', other = ()\<rparr>"
  by (simp add: sample_fm_def) (simp add: doc_defs)

lemma sample_fm_garbage: "sample_fm ''garbage'' = Inl (Error ''unexpected document'')"
  by (simp add: sample_fm_def doc_defs)

lemma sample_parse_hello:
  "parseMDLocal (fm sample_deps) (process sample_deps) doc_hello = Inr rec_hello"
  by (simp add: sample_deps_sel parseMDLocal_def sample_fm_hello sample_process_def rec_hello_def)

lemma sample_parse_edit:
  "parseMDLocal (fm sample_deps) (process sample_deps) doc_hello_edit = Inr rec_hello_edit"
  by (simp add: sample_deps_sel parseMDLocal_def sample_fm_edit sample_process_def
        rec_hello_edit_def)

lemma sample_parse_proto:
  "parseMDLocal (fm sample_deps) (process sample_deps) doc_proto = Inr rec_proto"
  by (simp add: sample_deps_sel parseMDLocal_def sample_fm_proto sample_process_def
        rec_proto_def)

lemma sample_parse_no_route:
  "parseMDLocal (fm sample_deps) (process sample_deps) doc_no_route =
     Inr \<lparr>attributes = [''title'' \<mapsto> YStr ''About''], body = ''# About'', other = (),
          parsed = ''<article># About</article>'', raw = doc_no_route\<rparr>"
  by (simp add: sample_deps_sel parseMDLocal_def sample_fm_no_route sample_process_def)

lemma sample_parse_numeric:
  "parseMDLocal (fm sample_deps) (process sample_deps) doc_numeric =
     Inr \<lparr>attributes = [''route'' \<mapsto> YNum 42], body = ''# Hi'', other = (),
          parsed = ''<article># Hi</article>'', raw = doc_numeric\<rparr>"
  by (simp add: sample_deps_sel parseMDLocal_def sample_fm_numeric sample_process_def)

lemma sample_parse_garbage:
  "parseMDLocal (fm sample_deps) (process sample_deps) ''garbage'' =
     Inl (Error ''unexpected document'')"
  by (simp add: sample_deps_sel parseMDLocal_def sample_fm_garbage)

lemma clean_hello: "cleanRoute ''Hello World'' = ''hello-world''"
  by code_simp

lemma clean_hello_lower: "cleanRoute ''hello world'' = ''hello-world''"
  by code_simp

lemma clean_hello_key: "cleanRoute ''hello-world'' = ''hello-world''"
  by code_simp

lemma clean_about: "cleanRoute ''about'' = ''about''"
  by code_simp

lemma clean_proto: "cleanRoute ''__proto__'' = ''__proto__''"
  by code_simp

lemma clean_missing: "cleanRoute ''missing'' = ''missing''"
  by code_simp

lemma hello_not_inherited: "''hello-world'' \<notin> set object_prototype_names"
  by (simp add: object_prototype_names_def)

section \<open>The update protocol\<close>

lemma get_property_Some [simp]: "obj key = Some v \<Longrightarrow> get_property obj key = Own v"
  by (simp add: get_property_def)

lemma set_property_other: "k \<noteq> key \<Longrightarrow> set_property obj key v k = obj k"
  by (simp add: set_property_def)

lemma set_property_cases: "set_property obj key v = obj \<or> set_property obj key v = obj(key \<mapsto> v)"
  by (simp add: set_property_def)

lemma set_property_present [simp]:
  "obj key = Some w \<Longrightarrow> set_property obj key v = obj(key \<mapsto> v)"
  by (simp add: set_property_def)

lemma set_property_plain [simp]:
  "key \<noteq> ''__proto__'' \<Longrightarrow> set_property obj key v = obj(key \<mapsto> v)"
  by (simp add: set_property_def)

lemma updateContent_parsed:
  assumes "validateJWT E jwt = None"
    and "parseMDLocal (fm E) (process E) content = Inr p"
  shows "updateContent E jwt content prev db =
     (case updater (type_error_message E) p (attributes p ''route'') prev
             (entries db contentKey) of
        (pe, Inl err) \<Rightarrow>
          (Returned (Some (case pe of
                             Some e \<Rightarrow> e
                           | None \<Rightarrow>
                               \<lparr>type = ''error'', code = ''UNKNOWN_ERROR'',
                                message = message_of err\<rparr>)),
           db\<lparr>journal := journal db @ [Update contentKey]\<rparr>)
      | (pe, Inr next) \<Rightarrow>
          (Returned None,
           db\<lparr>entries := (entries db)(contentKey \<mapsto> next),
              journal := journal db @ [Update contentKey]\<rparr>))"
  using assms by (simp add: updateContent_def update_def split: prod.splits sum.splits)

lemma parseMDLocal_raw: "parseMDLocal f g md = Inr p \<Longrightarrow> raw p = md"
  by (auto simp: parseMDLocal_def split: sum.splits)

lemma updateContent_success:
  assumes "updateContent E jwt content prev db = (Returned None, db')"
  shows "validateJWT E jwt = None \<and>
         (\<exists>p r. parseMDLocal (fm E) (process E) content = Inr p \<and>
                attributes p ''route'' = Some (YStr r) \<and>
                (prev = None \<or> (\<exists>x. stored db (cleanRoute r) = Some x \<and> prev = Some (raw x))) \<and>
                db' = db\<lparr>entries := (entries db)
                           (contentKey \<mapsto> set_property (stored db) (cleanRoute r) p),
                         journal := journal db @ [Update contentKey]\<rparr>)"
proof -
  from assms have v: "validateJWT E jwt = None"
    by (auto simp: updateContent_def split: option.splits)
  from assms v obtain p where p: "parseMDLocal (fm E) (process E) content = Inr p"
    by (auto simp: updateContent_def split: sum.splits)
  from assms obtain r where r: "attributes p ''route'' = Some (YStr r)"
    unfolding updateContent_parsed [OF v p]
    by (auto simp: updater_def Let_def
          split: if_splits sum.splits option.splits prod.splits property.splits
          elim!: cleanRoute_value.elims)
  from assms have "(prev = None \<or> (\<exists>x. stored db (cleanRoute r) = Some x \<and> prev = Some (raw x))) \<and>
                db' = db\<lparr>entries := (entries db)
                           (contentKey \<mapsto> set_property (stored db) (cleanRoute r) p),
                         journal := journal db @ [Update contentKey]\<rparr>"
    unfolding updateContent_parsed [OF v p]
    by (auto simp: updater_def Let_def r stored_def get_property_def
          split: if_splits option.splits property.splits)
  with v p r show ?thesis by blast
qed

text \<open>
  Claim C1. When the collection holds a record with raw value \<open>A\<close> at the key of route
  \<open>R\<close>, an update whose content declares a route with the same key and whose expected
  prior raw value \<open>B\<close> is given and differs from \<open>A\<close> returns the error
  \<^verbatim>\<open>CONTENT_HAS_CHANGED\<close>, and the stored entries, in particular the record at that key,
  are as before.
\<close>

theorem updateContent_stale_expectation:
  assumes "validateJWT E jwt = None"
    and "parseMDLocal (fm E) (process E) content = Inr p"
    and "attributes p ''route'' = Some (YStr r)"
    and "cleanRoute r = cleanRoute R"
    and "entries db contentKey = Some c"
    and "c (cleanRoute R) = Some existing"
    and "raw existing = A"
    and "B \<noteq> A"
  shows "fst (updateContent E jwt content (Some B) db) =
           Returned (Some \<lparr>type = ''error'', code = ''CONTENT_HAS_CHANGED'',
                           message = ''Content at route: '' @ dquote (cleanRoute R)
                             @ '' has been modified since reading''\<rparr>)
         \<and> entries (snd (updateContent E jwt content (Some B) db)) = entries db
         \<and> stored (snd (updateContent E jwt content (Some B) db)) (cleanRoute R)
             = Some existing"
  using assms by (simp add: updateContent_parsed updater_def stored_def)

theorem updateContent_stale_expectation_witness:
  "fst (updateContent sample_deps ''good'' doc_hello_edit (Some ''stale'') db_hello) =
     Returned (Some \<lparr>type = ''error'', code = ''CONTENT_HAS_CHANGED'',
                     message = ''Content at route: '' @ dquote ''hello-world''
                       @ '' has been modified since reading''\<rparr>)
   \<and> entries (snd (updateContent sample_deps ''good'' doc_hello_edit (Some ''stale'') db_hello))
       = entries db_hello
   \<and> stored (snd (updateContent sample_deps ''good'' doc_hello_edit (Some ''stale'') db_hello))
       ''hello-world'' = Some rec_hello"
proof -
  have 2: "attributes rec_hello_edit ''route'' = Some (YStr ''hello world'')"
    by (simp add: rec_hello_edit_def)
  have 3: "cleanRoute ''hello world'' = cleanRoute ''Hello World''"
    by (simp add: clean_hello clean_hello_lower)
  have 4: "entries db_hello contentKey = Some [''hello-world'' \<mapsto> rec_hello]"
    by (simp add: db_hello_def)
  have 5: "[''hello-world'' \<mapsto> rec_hello] (cleanRoute ''Hello World'') = Some rec_hello"
    by (simp add: clean_hello)
  have 6: "raw rec_hello = doc_hello"
    by (simp add: rec_hello_def)
  have 7: "''stale'' \<noteq> doc_hello"
    by (simp add: doc_defs)
  show ?thesis
    using updateContent_stale_expectation [OF sample_valid sample_parse_edit 2 3 4 5 6 7]
    by (simp add: clean_hello)
qed

text \<open>
  Claim C2. When the parsed frontmatter of the content has no \<^verbatim>\<open>route\<close> key, the update
  returns the error \<^verbatim>\<open>CONTENT_MISSING_FIELD\<close>, whatever the expected prior raw value
  is, and the stored entries are the same before and after the call. The only call made
  on the store is the \<^verbatim>\<open>update\<close> itself: the check happens inside the mutation step.
\<close>

theorem updateContent_missing_route:
  assumes "validateJWT E jwt = None"
    and "parseMDLocal (fm E) (process E) content = Inr p"
    and "attributes p ''route'' = None"
  shows "updateContent E jwt content clientPrevContent db =
           (Returned (Some \<lparr>type = ''error'', code = ''CONTENT_MISSING_FIELD'',
                            message = ''Content: must contain '' @ dquote ''route''
                              @ '' field in frontmatter''\<rparr>),
            db\<lparr>journal := journal db @ [Update contentKey]\<rparr>)
         \<and> entries (snd (updateContent E jwt content clientPrevContent db)) = entries db"
  using assms by (simp add: updateContent_parsed updater_def)

theorem updateContent_missing_route_witness:
  "updateContent sample_deps ''good'' doc_no_route (Some doc_hello) db_hello =
     (Returned (Some \<lparr>type = ''error'', code = ''CONTENT_MISSING_FIELD'',
                      message = ''Content: must contain '' @ dquote ''route''
                        @ '' field in frontmatter''\<rparr>),
      db_hello\<lparr>journal := journal db_hello @ [Update contentKey]\<rparr>)
   \<and> entries (snd (updateContent sample_deps ''good'' doc_no_route (Some doc_hello) db_hello))
       = entries db_hello"
  using updateContent_missing_route
    [OF sample_valid sample_parse_no_route, of "Some doc_hello" db_hello]
  by simp

text \<open>
  Claim C3 (the update is to fail with \<^verbatim>\<open>CONTENT_HAS_CHANGED\<close> when an expected prior
  raw value is given and no record exists at the key). The code does otherwise: with an
  expected prior raw value given, no record at the key of the declared route, and a key
  that is not the name of an inherited property, the mutator reads \<^verbatim>\<open>raw\<close> of
  \<^verbatim>\<open>undefined\<close>. The engine throws a \<^verbatim>\<open>TypeError\<close> before \<^verbatim>\<open>potentialError\<close> is
  assigned, and the catch clause reports \<^verbatim>\<open>UNKNOWN_ERROR\<close> with the engine's message,
  not \<^verbatim>\<open>CONTENT_HAS_CHANGED\<close>. The stored entries are unchanged.
\<close>

theorem updateContent_absent_record_unknown_error:
  assumes "validateJWT E jwt = None"
    and "parseMDLocal (fm E) (process E) content = Inr p"
    and "attributes p ''route'' = Some (YStr r)"
    and "stored db (cleanRoute r) = None"
    and "cleanRoute r \<notin> set object_prototype_names"
  shows "fst (updateContent E jwt content (Some B) db) =
           Returned (Some \<lparr>type = ''error'', code = ''UNKNOWN_ERROR'',
                           message = type_error_message E (Read_of ''raw'' ''undefined'')\<rparr>)
         \<and> entries (snd (updateContent E jwt content (Some B) db)) = entries db"
  using assms
  by (simp add: updateContent_parsed updater_def stored_def get_property_def
        split: option.splits)

theorem updateContent_absent_record_unknown_error_witness:
  "fst (updateContent sample_deps ''good'' doc_hello (Some ''stale'') db_empty) =
     Returned (Some \<lparr>type = ''error'', code = ''UNKNOWN_ERROR'',
                     message = sample_wording (Read_of ''raw'' ''undefined'')\<rparr>)
   \<and> entries (snd (updateContent sample_deps ''good'' doc_hello (Some ''stale'') db_empty))
       = entries db_empty"
proof -
  have 2: "attributes rec_hello ''route'' = Some (YStr ''Hello World'')"
    by (simp add: rec_hello_def)
  have 3: "stored db_empty (cleanRoute ''Hello World'') = None"
    by (simp add: db_empty_def stored_def)
  have 4: "cleanRoute ''Hello World'' \<notin> set object_prototype_names"
    by (simp only: clean_hello hello_not_inherited not_False_eq_True)
  show ?thesis
    using updateContent_absent_record_unknown_error
      [OF sample_valid sample_parse_hello 2 3 4, of "''stale''"]
    by (simp add: sample_deps_sel)
qed

text \<open>
  Where the key is the name of an inherited property and no record is stored under it,
  the value read has no \<^verbatim>\<open>raw\<close>, and the update fails with \<^verbatim>\<open>CONTENT_HAS_CHANGED\<close>.
\<close>

lemma updateContent_inherited_key_changed:
  assumes "validateJWT E jwt = None"
    and "parseMDLocal (fm E) (process E) content = Inr p"
    and "attributes p ''route'' = Some (YStr r)"
    and "stored db (cleanRoute r) = None"
    and "cleanRoute r \<in> set object_prototype_names"
  shows "fst (updateContent E jwt content (Some B) db) =
           Returned (Some \<lparr>type = ''error'', code = ''CONTENT_HAS_CHANGED'',
                           message = ''Content at route: '' @ dquote (cleanRoute r)
                             @ '' has been modified since reading''\<rparr>)"
  using assms
  by (simp add: updateContent_parsed updater_def stored_def get_property_def
        split: option.splits)

text \<open>
  Claim C4, amended. With no expected prior raw value (\<^verbatim>\<open>null\<close>), an update whose content
  parses and declares a route that is a string, with a normal form other than
  \<^verbatim>\<open>__proto__\<close>, succeeds on every store: the comparison with the stored record is not
  made, and the record at the normalised route becomes the newly parsed record, whatever
  was stored there.
\<close>

theorem updateContent_override:
  assumes "validateJWT E jwt = None"
    and "parseMDLocal (fm E) (process E) content = Inr p"
    and "attributes p ''route'' = Some (YStr r)"
    and "cleanRoute r \<noteq> ''__proto__''"
  shows "updateContent E jwt content None db =
           (Returned None,
            db\<lparr>entries := (entries db)(contentKey \<mapsto> (stored db)(cleanRoute r \<mapsto> p)),
               journal := journal db @ [Update contentKey]\<rparr>)
         \<and> stored (snd (updateContent E jwt content None db)) (cleanRoute r) = Some p"
  using assms by (simp add: updateContent_parsed updater_def stored_def)

theorem updateContent_override_witness:
  "updateContent sample_deps ''good'' doc_hello_edit None db_hello =
     (Returned None,
      db_hello\<lparr>entries := (entries db_hello)
                 (contentKey \<mapsto> (stored db_hello)(''hello-world'' \<mapsto> rec_hello_edit)),
               journal := journal db_hello @ [Update contentKey]\<rparr>)
   \<and> stored (snd (updateContent sample_deps ''good'' doc_hello_edit None db_hello))
       ''hello-world'' = Some rec_hello_edit"
proof -
  have 2: "attributes rec_hello_edit ''route'' = Some (YStr ''hello world'')"
    by (simp add: rec_hello_edit_def)
  have 3: "cleanRoute ''hello world'' \<noteq> ''__proto__''"
    by (simp add: clean_hello_lower)
  show ?thesis
    using updateContent_override [OF sample_valid sample_parse_edit 2 3, of db_hello]
    unfolding clean_hello_lower .
qed

text \<open>
  Claim C4 as stated fails for a declared route that is not a string. The YAML number 42
  has no \<^verbatim>\<open>replace\<close> method: with no expected prior raw value the update does not
  succeed, it reports \<^verbatim>\<open>UNKNOWN_ERROR\<close> and stores nothing.
\<close>

theorem updateContent_override_numeric_route_counterexample:
  "fst (updateContent sample_deps ''good'' doc_numeric None db_hello) =
     Returned (Some \<lparr>type = ''error'', code = ''UNKNOWN_ERROR'',
                     message = sample_wording (Not_a_function ''someRoute.replace'')\<rparr>)
   \<and> entries (snd (updateContent sample_deps ''good'' doc_numeric None db_hello))
       = entries db_hello"
  by (simp add: updateContent_parsed [OF sample_valid sample_parse_numeric] updater_def
        sample_deps_sel)

text \<open>
  Claim C9, amended. With a record of raw value \<open>A\<close> stored at the key of route \<open>r\<close>, an
  update with content declaring route \<open>r\<close> and expected prior raw value \<open>A\<close> succeeds
  and replaces the record, for every content. When the content differs from \<open>A\<close>, the
  second, identical call fails with \<^verbatim>\<open>CONTENT_HAS_CHANGED\<close> and changes nothing.
\<close>

theorem updateContent_twice:
  assumes "validateJWT E jwt = None"
    and "parseMDLocal (fm E) (process E) content = Inr p"
    and "attributes p ''route'' = Some (YStr r)"
    and "entries db contentKey = Some c"
    and "c (cleanRoute r) = Some existing"
    and "raw existing = A"
  shows "fst (updateContent E jwt content (Some A) db) = Returned None
         \<and> stored (snd (updateContent E jwt content (Some A) db)) (cleanRoute r) = Some p
         \<and> (content \<noteq> A \<longrightarrow>
              fst (updateContent E jwt content (Some A)
                     (snd (updateContent E jwt content (Some A) db))) =
                Returned (Some \<lparr>type = ''error'', code = ''CONTENT_HAS_CHANGED'',
                                message = ''Content at route: '' @ dquote (cleanRoute r)
                                  @ '' has been modified since reading''\<rparr>)
              \<and> entries (snd (updateContent E jwt content (Some A)
                                (snd (updateContent E jwt content (Some A) db)))) =
                  entries (snd (updateContent E jwt content (Some A) db)))"
proof -
  have rp: "raw p = content" using assms(2) by (rule parseMDLocal_raw)
  have first: "updateContent E jwt content (Some A) db =
      (Returned None, db\<lparr>entries := (entries db)(contentKey \<mapsto> c(cleanRoute r \<mapsto> p)),
                          journal := journal db @ [Update contentKey]\<rparr>)"
    using assms by (simp add: updateContent_parsed updater_def)
  show ?thesis
    unfolding first using assms(3) rp
    by (simp add: updateContent_parsed [OF assms(1,2)] updater_def stored_def)
qed

theorem updateContent_twice_witness:
  "fst (updateContent sample_deps ''good'' doc_hello_edit (Some doc_hello) db_hello)
     = Returned None
   \<and> stored (snd (updateContent sample_deps ''good'' doc_hello_edit (Some doc_hello) db_hello))
       ''hello-world'' = Some rec_hello_edit
   \<and> fst (updateContent sample_deps ''good'' doc_hello_edit (Some doc_hello)
            (snd (updateContent sample_deps ''good'' doc_hello_edit (Some doc_hello) db_hello))) =
       Returned (Some \<lparr>type = ''error'', code = ''CONTENT_HAS_CHANGED'',
                       message = ''Content at route: '' @ dquote ''hello-world''
                         @ '' has been modified since reading''\<rparr>)"
proof -
  have 3: "attributes rec_hello_edit ''route'' = Some (YStr ''hello world'')"
    by (simp add: rec_hello_edit_def)
  have 4: "entries db_hello contentKey = Some [''hello-world'' \<mapsto> rec_hello]"
    by (simp add: db_hello_def)
  have 5: "[''hello-world'' \<mapsto> rec_hello] (cleanRoute ''hello world'') = Some rec_hello"
    by (simp add: clean_hello_lower)
  have 6: "raw rec_hello = doc_hello"
    by (simp add: rec_hello_def)
  have 7: "doc_hello_edit \<noteq> doc_hello"
    by (simp add: doc_defs)
  show ?thesis
    using updateContent_twice [OF sample_valid sample_parse_edit 3 4 5 6] 7
    unfolding clean_hello_lower by blast
qed

text \<open>
  Claim C9 as stated fails when the content is the stored raw value itself: the
  expectation is not stale after the first call, and the second identical call succeeds
  as well.
\<close>

theorem updateContent_twice_same_content_counterexample:
  "fst (updateContent sample_deps ''good'' doc_hello (Some doc_hello) db_hello) = Returned None
   \<and> fst (updateContent sample_deps ''good'' doc_hello (Some doc_hello)
            (snd (updateContent sample_deps ''good'' doc_hello (Some doc_hello) db_hello)))
       = Returned None"
  by (simp add: updateContent_parsed [OF sample_valid sample_parse_hello] updater_def
        rec_hello_def clean_hello db_hello_def)

text \<open>
  Claim C10. A successful update with parsed route \<open>r\<close> changes the collection at the key
  \<open>cleanRoute r\<close> only: at every other key the record is the one that was there before
  the call (and no other entry of the store is touched).
\<close>

theorem updateContent_frame:
  assumes "updateContent E jwt content prev db = (Returned None, db')"
    and "parseMDLocal (fm E) (process E) content = Inr p"
    and "attributes p ''route'' = Some (YStr r)"
  shows "(\<forall>k. k \<noteq> cleanRoute r \<longrightarrow> stored db' k = stored db k)
         \<and> (\<forall>key. key \<noteq> contentKey \<longrightarrow> entries db' key = entries db key)"
  using updateContent_success [OF assms(1)] assms(2,3)
  by (auto simp: stored_def set_property_other)

theorem updateContent_frame_witness:
  "stored (snd (updateContent sample_deps ''good'' doc_hello_edit None db_two)) ''about''
     = Some rec_about
   \<and> stored db_two ''about'' = Some rec_about
   \<and> stored db_two ''hello-world'' = Some rec_hello
   \<and> fst (updateContent sample_deps ''good'' doc_hello_edit None db_two) = Returned None"
proof -
  have 0: "fst (updateContent sample_deps ''good'' doc_hello_edit None db_two) = Returned None"
    by (simp add: updateContent_parsed [OF sample_valid sample_parse_edit] updater_def
        rec_hello_edit_def)
  then have 1: "updateContent sample_deps ''good'' doc_hello_edit None db_two =
      (Returned None, snd (updateContent sample_deps ''good'' doc_hello_edit None db_two))"
    by (metis prod.collapse)
  have 3: "attributes rec_hello_edit ''route'' = Some (YStr ''hello world'')"
    by (simp add: rec_hello_edit_def)
  have 4: "''about'' \<noteq> cleanRoute ''hello world''"
    by (simp add: clean_hello_lower)
  have 5: "stored db_two ''about'' = Some rec_about" "stored db_two ''hello-world'' = Some rec_hello"
    by (simp_all add: stored_def db_two_def)
  from updateContent_frame [OF 1 sample_parse_edit 3] 4
  have "stored (snd (updateContent sample_deps ''good'' doc_hello_edit None db_two)) ''about''
     = stored db_two ''about''"
    by blast
  with 0 5 show ?thesis by simp
qed

section \<open>The invariant is kept\<close>

text \<open>
  The empty collection created on first access is keyed by normalised routes, and every
  call of the update operation keeps the collection so, whether it commits or not.
\<close>

lemma route_keyed_empty: "route_keyed Map.empty"
  by (simp add: route_keyed_def)

lemma route_keyed_update:
  "route_keyed c \<Longrightarrow> attributes p ''route'' = Some (YStr r) \<Longrightarrow>
   route_keyed (c(cleanRoute r \<mapsto> p))"
  by (auto simp: route_keyed_def)

lemma route_keyed_set_property:
  "route_keyed c \<Longrightarrow> attributes p ''route'' = Some (YStr r) \<Longrightarrow>
   route_keyed (set_property c (cleanRoute r) p)"
  using set_property_cases [of c "cleanRoute r" p] by (auto intro: route_keyed_update)

lemma updateContent_route_keyed:
  assumes "route_keyed (stored db)"
  shows "route_keyed (stored (snd (updateContent E jwt content prev db)))"
proof (cases "fst (updateContent E jwt content prev db) = Returned None")
  case True
  then have "updateContent E jwt content prev db =
      (Returned None, snd (updateContent E jwt content prev db))"
    by (metis prod.collapse)
  from updateContent_success [OF this] obtain p r
    where r: "attributes p ''route'' = Some (YStr r)"
      and d: "snd (updateContent E jwt content prev db) =
                db\<lparr>entries := (entries db)
                     (contentKey \<mapsto> set_property (stored db) (cleanRoute r) p),
                   journal := journal db @ [Update contentKey]\<rparr>"
    by auto
  have "stored (snd (updateContent E jwt content prev db))
          = set_property (stored db) (cleanRoute r) p"
    unfolding d by (simp add: stored_def)
  then show ?thesis
    using route_keyed_set_property [OF assms r] by simp
next
  case False
  have "entries (snd (updateContent E jwt content prev db)) = entries db
        \<or> fst (updateContent E jwt content prev db) = Returned None"
    by (auto simp: updateContent_def update_def split: option.splits sum.splits prod.splits)
  with False assms show ?thesis by (simp add: stored_def)
qed

section \<open>Reading\<close>

lemma getContent_present:
  "entries db contentKey = Some c \<Longrightarrow>
   getContent db = (c, db\<lparr>journal := journal db @ [Get contentKey]\<rparr>)"
  by (simp add: getContent_def get_def)

lemma getContent_absent:
  "entries db contentKey = None \<Longrightarrow>
   getContent db =
     (Map.empty,
      db\<lparr>entries := (entries db)(contentKey \<mapsto> Map.empty),
         journal := journal db @ [Get contentKey, Remove contentKey, Create contentKey]\<rparr>)"
  by (simp add: getContent_def get_def remove_def create_def Let_def)

lemma getContent_stored:
  "fst (getContent db) = stored db \<and> stored (snd (getContent db)) = stored db"
  by (auto simp: getContent_def get_def remove_def create_def stored_def Let_def
        split: option.splits)

lemma scan_keys_finds:
  assumes "route_keyed c" and "set ks \<subseteq> dom c" and "cleanRoute q \<in> set ks"
    and "c (cleanRoute q) = Some r"
  shows "scan_keys wording c q ks = Some (Inr r)"
  using assms(2,3)
proof (induction ks)
  case Nil
  then show ?case by simp
next
  case (Cons k ks)
  from Cons.prems obtain r' where r': "c k = Some r'" by auto
  with assms(1) obtain s where s: "attributes r' ''route'' = Some (YStr s)" "cleanRoute s = k"
    by (auto simp: route_keyed_def)
  show ?case
  proof (cases "k = cleanRoute q")
    case True
    with r' s assms(4) show ?thesis by simp
  next
    case False
    with Cons r' s show ?thesis by simp
  qed
qed

lemma scan_keys_no_match:
  "\<forall>k\<in>set ks. \<exists>r s. c k = Some r \<and> attributes r ''route'' = Some (YStr s)
       \<and> cleanRoute s \<noteq> cleanRoute q \<Longrightarrow>
   scan_keys wording c q ks = None"
  by (induction ks) auto

lemma sample_keys_hello: "sample_keys [''hello-world'' \<mapsto> r] = [''hello-world'']"
  by (simp add: sample_keys_def)

text \<open>
  The round trip for every route but one: after a successful update with content that
  declares route \<open>R\<close>, whose normal form is not \<^verbatim>\<open>__proto__\<close>, a lookup by any query
  string \<open>q\<close> with the same normal form as \<open>R\<close> returns the record just stored. The
  collection before the update satisfies the invariant of the data model, and the
  engine's enumeration of the keys may be in any order.
\<close>

lemma update_then_getContentByRoute:
  assumes "updateContent E jwt content prev db = (Returned None, db')"
    and "parseMDLocal (fm E) (process E) content = Inr p"
    and "attributes p ''route'' = Some (YStr R)"
    and "cleanRoute R \<noteq> ''__proto__''"
    and "route_keyed (stored db)"
    and "cleanRoute q = cleanRoute R"
    and "validateJWT E jwt' = None"
    and "enumerates (object_keys E (stored db')) (stored db')"
  shows "getContentByRoute E jwt' q db' =
           (Returned p, db'\<lparr>journal := journal db' @ [Get contentKey]\<rparr>)"
proof -
  from updateContent_success [OF assms(1)] assms(2,3,4)
  have db': "db' = db\<lparr>entries := (entries db)(contentKey \<mapsto> (stored db)(cleanRoute R \<mapsto> p)),
                       journal := journal db @ [Update contentKey]\<rparr>"
    by auto
  then have e: "entries db' contentKey = Some ((stored db)(cleanRoute R \<mapsto> p))"
    by simp
  then have st: "stored db' = (stored db)(cleanRoute R \<mapsto> p)"
    by (simp add: stored_def)
  have rk: "route_keyed (stored db')"
    unfolding st using assms(5,3) by (rule route_keyed_update)
  have at: "stored db' (cleanRoute q) = Some p"
    by (simp add: st assms(6))
  from assms(8) have ks: "set (object_keys E (stored db')) = dom (stored db')"
    by (simp add: enumerates_def)
  then have "cleanRoute q \<in> set (object_keys E (stored db'))"
    using at by auto
  with rk ks at
  have "scan_keys (type_error_message E) (stored db') q (object_keys E (stored db'))
          = Some (Inr p)"
    by (intro scan_keys_finds) auto
  then show ?thesis
    using e assms(7) st by (simp add: getContentByRoute_def getContent_present)
qed

text \<open>
  Claim C6 (after a successful update with content declaring route \<open>R\<close>, a lookup by a
  query with the same normal form returns the stored record). The code does otherwise
  for a route whose normal form is \<^verbatim>\<open>__proto__\<close>, when no record is stored under that
  key: the assignment \<^verbatim>\<open>copied[clean] = parsed\<close> replaces the prototype of the copy and
  creates no property, the update reports success with the collection as it was, and the
  lookup runs to the end of its loop and throws.
\<close>

theorem update_proto_route_lost:
  assumes "validateJWT E jwt = None"
    and "parseMDLocal (fm E) (process E) content = Inr p"
    and "attributes p ''route'' = Some (YStr R)"
    and "cleanRoute R = ''__proto__''"
    and "stored db ''__proto__'' = None"
    and "route_keyed (stored db)"
    and "cleanRoute q = cleanRoute R"
    and "validateJWT E jwt' = None"
    and "enumerates (object_keys E (stored db)) (stored db)"
  shows "fst (updateContent E jwt content None db) = Returned None
         \<and> stored (snd (updateContent E jwt content None db)) = stored db
         \<and> fst (getContentByRoute E jwt' q (snd (updateContent E jwt content None db))) =
             Thrown (Error (''No content found for route: '' @ dquote q))"
proof -
  have u: "updateContent E jwt content None db =
      (Returned None, db\<lparr>entries := (entries db)(contentKey \<mapsto> stored db),
                          journal := journal db @ [Update contentKey]\<rparr>)"
    using assms(1-5)
    by (simp add: updateContent_parsed updater_def set_property_def stored_def
          split: option.splits)
  have "\<forall>k\<in>set (object_keys E (stored db)).
          \<exists>r s. stored db k = Some r \<and> attributes r ''route'' = Some (YStr s)
                \<and> cleanRoute s \<noteq> cleanRoute q"
  proof
    fix k assume "k \<in> set (object_keys E (stored db))"
    with assms(9) obtain r where r: "stored db k = Some r"
      by (auto simp: enumerates_def)
    with assms(6) obtain s where s: "attributes r ''route'' = Some (YStr s)" "cleanRoute s = k"
      by (auto simp: route_keyed_def)
    from r assms(5) have "k \<noteq> ''__proto__''" by auto
    with r s assms(4,7)
    show "\<exists>r s. stored db k = Some r \<and> attributes r ''route'' = Some (YStr s)
                \<and> cleanRoute s \<noteq> cleanRoute q"
      by auto
  qed
  then have "scan_keys (type_error_message E) (stored db) q (object_keys E (stored db)) = None"
    by (rule scan_keys_no_match)
  then show ?thesis
    unfolding u using assms(8)
    by (simp add: stored_def getContentByRoute_def getContent_present)
qed

theorem update_proto_route_lost_witness:
  "fst (updateContent sample_deps ''good'' doc_proto None db_hello) = Returned None
   \<and> stored (snd (updateContent sample_deps ''good'' doc_proto None db_hello))
       = [''hello-world'' \<mapsto> rec_hello]
   \<and> fst (getContentByRoute sample_deps ''good'' ''__proto__''
            (snd (updateContent sample_deps ''good'' doc_proto None db_hello))) =
       Thrown (Error (''No content found for route: '' @ dquote ''__proto__''))"
proof -
  have st: "stored db_hello = [''hello-world'' \<mapsto> rec_hello]"
    by (simp add: stored_def db_hello_def)
  have 3: "attributes rec_proto ''route'' = Some (YStr ''__proto__'')"
    by (simp add: rec_proto_def)
  have 5: "stored db_hello ''__proto__'' = None"
    by (simp add: st)
  have 6: "route_keyed (stored db_hello)"
    by (simp add: st route_keyed_def rec_hello_def clean_hello)
  have 7: "cleanRoute ''__proto__'' = cleanRoute ''__proto__''"
    by simp
  have 9: "enumerates (object_keys sample_deps (stored db_hello)) (stored db_hello)"
    by (simp add: st enumerates_def sample_deps_sel sample_keys_hello)
  show ?thesis
    using update_proto_route_lost
      [OF sample_valid sample_parse_proto 3 clean_proto 5 6 7 sample_valid 9]
    unfolding st .
qed

text \<open>
  Claim C8. When the store has no entry at the content key, \<^verbatim>\<open>getContent\<close> calls
  \<^verbatim>\<open>get\<close>, then \<^verbatim>\<open>remove\<close>, then \<^verbatim>\<open>create\<close> once, leaves the empty collection at
  the key and returns it, so that a following metadata listing returns the empty
  sequence and creates nothing. When an entry exists, \<^verbatim>\<open>getContent\<close> returns it after
  the single \<^verbatim>\<open>get\<close>. The metadata listing and the two lookups leave the store as
  \<^verbatim>\<open>getContent\<close> does.
\<close>

theorem getContent_lazy_init:
  "(entries db contentKey = None \<longrightarrow>
      getContent db =
        (Map.empty,
         db\<lparr>entries := (entries db)(contentKey \<mapsto> Map.empty),
            journal := journal db @ [Get contentKey, Remove contentKey, Create contentKey]\<rparr>)
      \<and> (enumerates (object_keys E Map.empty) Map.empty \<longrightarrow>
           getContentMeta E (snd (getContent db)) =
             (Returned [],
              (snd (getContent db))\<lparr>journal := journal (snd (getContent db)) @ [Get contentKey]\<rparr>)))
   \<and> (entries db contentKey = Some c \<longrightarrow>
        getContent db = (c, db\<lparr>journal := journal db @ [Get contentKey]\<rparr>))
   \<and> snd (getContentMeta E db) = snd (getContent db)
   \<and> snd (loadContentByRoute E route db) = snd (getContent db)
   \<and> (validateJWT E jwt = None \<longrightarrow> snd (getContentByRoute E jwt route db) = snd (getContent db))"
proof -
  have a: "entries db contentKey = None \<longrightarrow>
      getContent db =
        (Map.empty,
         db\<lparr>entries := (entries db)(contentKey \<mapsto> Map.empty),
            journal := journal db @ [Get contentKey, Remove contentKey, Create contentKey]\<rparr>)
      \<and> (enumerates (object_keys E Map.empty) Map.empty \<longrightarrow>
           getContentMeta E (snd (getContent db)) =
             (Returned [],
              (snd (getContent db))\<lparr>journal := journal (snd (getContent db)) @ [Get contentKey]\<rparr>))"
    by (simp add: getContent_absent getContentMeta_def getContent_present enumerates_def)
  have b: "entries db contentKey = Some c \<longrightarrow>
        getContent db = (c, db\<lparr>journal := journal db @ [Get contentKey]\<rparr>)"
    by (simp add: getContent_present)
  have c: "snd (getContentMeta E db) = snd (getContent db)"
    by (simp add: getContentMeta_def split: prod.splits sum.splits)
  have d: "snd (loadContentByRoute E route db) = snd (getContent db)"
    by (simp add: loadContentByRoute_def split: prod.splits sum.splits option.splits)
  have e: "validateJWT E jwt = None \<longrightarrow>
      snd (getContentByRoute E jwt route db) = snd (getContent db)"
    by (simp add: getContentByRoute_def split: prod.splits sum.splits option.splits)
  from a b c d e show ?thesis by blast
qed

theorem getContent_lazy_init_witness:
  "getContent db_fresh =
     (Map.empty,
      \<lparr>entries = [contentKey \<mapsto> Map.empty],
       journal = [Get contentKey, Remove contentKey, Create contentKey]\<rparr>)
   \<and> fst (getContentMeta sample_deps (snd (getContent db_fresh))) = Returned []
   \<and> journal (snd (getContentMeta sample_deps (snd (getContent db_fresh)))) =
       [Get contentKey, Remove contentKey, Create contentKey, Get contentKey]
   \<and> getContent db_hello = ([''hello-world'' \<mapsto> rec_hello], db_hello\<lparr>journal := [Get contentKey]\<rparr>)
   \<and> snd (getContentByRoute sample_deps ''good'' ''x'' db_fresh) = snd (getContent db_fresh)"
proof -
  have 1: "entries db_fresh contentKey = None"
    by (simp add: db_fresh_def)
  have 2: "enumerates (object_keys sample_deps Map.empty) Map.empty"
    by (simp add: enumerates_def sample_deps_sel sample_keys_def)
  have 3: "entries db_hello contentKey = Some [''hello-world'' \<mapsto> rec_hello]"
    by (simp add: db_hello_def)
  have 4: "journal db_hello = []"
    by (simp add: db_hello_def)
  have 5: "db_fresh\<lparr>entries := (entries db_fresh)(contentKey \<mapsto> Map.empty),
            journal := journal db_fresh @ [Get contentKey, Remove contentKey, Create contentKey]\<rparr>
        = \<lparr>entries = [contentKey \<mapsto> Map.empty],
       journal = [Get contentKey, Remove contentKey, Create contentKey]\<rparr>"
    by (simp add: db_fresh_def)
  show ?thesis
    using getContent_lazy_init [of db_fresh sample_deps "[''hello-world'' \<mapsto> rec_hello]" "''x''" "''good''"]
      getContent_lazy_init [of db_hello sample_deps "[''hello-world'' \<mapsto> rec_hello]" "''x''" "''good''"]
      1 2 3 sample_valid
    unfolding 4 5 by auto
qed

text \<open>
  Claim C7, amended. With an accepted token and content that parses, the update operation
  never throws: it returns nothing, or an error value of type \<^verbatim>\<open>error\<close> whose code is
  \<^verbatim>\<open>CONTENT_MISSING_FIELD\<close>, \<^verbatim>\<open>CONTENT_HAS_CHANGED\<close> or \<^verbatim>\<open>UNKNOWN_ERROR\<close>. A
  failure of the markdown pipeline is thrown by the update operation as it is, and a
  lookup in which no record's route matches throws an \<^verbatim>\<open>Error\<close> with the message
  "No content found for route", followed by the quoted route.
\<close>

theorem errors_returned_or_thrown:
  "(validateJWT E jwt = None \<and> parseMDLocal (fm E) (process E) content = Inr p \<longrightarrow>
      fst (updateContent E jwt content prev db) = Returned None
      \<or> (\<exists>e. fst (updateContent E jwt content prev db) = Returned (Some e)
              \<and> type e = ''error''
              \<and> code e \<in> {''CONTENT_MISSING_FIELD'', ''CONTENT_HAS_CHANGED'', ''UNKNOWN_ERROR''}))
   \<and> (validateJWT E jwt = None \<and> parseMDLocal (fm E) (process E) content = Inl x \<longrightarrow>
        updateContent E jwt content prev db = (Thrown x, db))
   \<and> (validateJWT E jwt = None
        \<and> (\<forall>k\<in>set (object_keys E (stored db)).
              \<exists>r s. stored db k = Some r \<and> attributes r ''route'' = Some (YStr s)
                    \<and> cleanRoute s \<noteq> cleanRoute q) \<longrightarrow>
        fst (getContentByRoute E jwt q db) =
          Thrown (Error (''No content found for route: '' @ dquote q)))"
proof (intro conjI impI)
  assume "validateJWT E jwt = None \<and> parseMDLocal (fm E) (process E) content = Inr p"
  then show "fst (updateContent E jwt content prev db) = Returned None
      \<or> (\<exists>e. fst (updateContent E jwt content prev db) = Returned (Some e)
              \<and> type e = ''error''
              \<and> code e \<in> {''CONTENT_MISSING_FIELD'', ''CONTENT_HAS_CHANGED'', ''UNKNOWN_ERROR''})"
    by (auto simp: updateContent_parsed updater_def Let_def
          split: prod.splits sum.splits option.splits if_splits property.splits)
next
  assume "validateJWT E jwt = None \<and> parseMDLocal (fm E) (process E) content = Inl x"
  then show "updateContent E jwt content prev db = (Thrown x, db)"
    by (simp add: updateContent_def)
next
  assume a: "validateJWT E jwt = None
        \<and> (\<forall>k\<in>set (object_keys E (stored db)).
              \<exists>r s. stored db k = Some r \<and> attributes r ''route'' = Some (YStr s)
                    \<and> cleanRoute s \<noteq> cleanRoute q)"
  then have "scan_keys (type_error_message E) (stored db) q (object_keys E (stored db)) = None"
    by (intro scan_keys_no_match) simp
  moreover obtain l d where g: "getContent db = (l, d)"
    by (cases "getContent db")
  moreover have "l = stored db"
    using getContent_stored [of db] g by simp
  ultimately show "fst (getContentByRoute E jwt q db) =
          Thrown (Error (''No content found for route: '' @ dquote q))"
    using a by (simp add: getContentByRoute_def)
qed

theorem errors_returned_or_thrown_witness:
  "(fst (updateContent sample_deps ''good'' doc_no_route None db_hello) = Returned None
      \<or> (\<exists>e. fst (updateContent sample_deps ''good'' doc_no_route None db_hello) = Returned (Some e)
              \<and> type e = ''error''
              \<and> code e \<in> {''CONTENT_MISSING_FIELD'', ''CONTENT_HAS_CHANGED'', ''UNKNOWN_ERROR''}))
   \<and> updateContent sample_deps ''good'' ''garbage'' None db_hello
        = (Thrown (Error ''unexpected document''), db_hello)
   \<and> fst (getContentByRoute sample_deps ''good'' ''missing'' db_hello) =
          Thrown (Error (''No content found for route: '' @ dquote ''missing''))"
proof -
  have 3: "\<forall>k\<in>set (object_keys sample_deps (stored db_hello)).
              \<exists>r s. stored db_hello k = Some r \<and> attributes r ''route'' = Some (YStr s)
                    \<and> cleanRoute s \<noteq> cleanRoute ''missing''"
    by (simp add: sample_deps_sel stored_def db_hello_def sample_keys_def rec_hello_def
          clean_hello clean_missing)
  show ?thesis
    using errors_returned_or_thrown [of sample_deps "''good''" doc_no_route _ None db_hello]
      errors_returned_or_thrown [of sample_deps "''good''" "''garbage''" _ None db_hello]
      errors_returned_or_thrown [of sample_deps "''good''" _ _ _ db_hello _ "''missing''"]
      sample_valid sample_parse_no_route sample_parse_garbage 3
    by blast
qed

text \<open>
  Claim C7 as stated fails for the lookup: when no record matches, it does not return a
  value with a code, it throws.
\<close>

theorem getContentByRoute_no_match_counterexample:
  "getContentByRoute sample_deps ''good'' ''missing'' db_hello =
     (Thrown (Error (''No content found for route: '' @ dquote ''missing'')),
      db_hello\<lparr>journal := journal db_hello @ [Get contentKey]\<rparr>)"
proof -
  have "entries db_hello contentKey = Some [''hello-world'' \<mapsto> rec_hello]"
    by (simp add: db_hello_def)
  then have g: "getContent db_hello =
      ([''hello-world'' \<mapsto> rec_hello], db_hello\<lparr>journal := journal db_hello @ [Get contentKey]\<rparr>)"
    by (rule getContent_present)
  show ?thesis
    by (simp add: getContentByRoute_def sample_valid g sample_deps_sel sample_keys_def
          rec_hello_def clean_hello clean_missing)
qed

end
